theory Spec2Isabelle
  imports Main
begin

section \<open>Python values\<close>

text \<open>
  The ingestion pipeline of \<^verbatim>\<open>app/core/etl/ingest.py\<close> works on loosely typed Python
  values: the rows of a CSV file, the body of a JSON response, the payload of a webhook.
  A value is \<^verbatim>\<open>None\<close>, a \<^verbatim>\<open>bool\<close>, an \<^verbatim>\<open>int\<close>, a \<^verbatim>\<open>str\<close>, a \<^verbatim>\<open>list\<close> or a
  \<^verbatim>\<open>dict\<close>. A \<^verbatim>\<open>str\<close> is represented by its UTF-8 encoding, one \<^typ>\<open>char\<close> per
  byte, so that equality of strings and \<^verbatim>\<open>str.encode()\<close> are what they are in Python
  (\<^verbatim>\<open>key.encode()\<close> is the identity on the representation). A \<^verbatim>\<open>dict\<close> is an
  association list in insertion order; its keys are values, since the rows of
  \<^verbatim>\<open>csv.DictReader\<close> can carry the key \<^verbatim>\<open>None\<close>. JSON numbers with a fraction
  (\<^verbatim>\<open>float\<close>) are outside the model.
\<close>

datatype pyval =
    PNone
  | PBool bool
  | PInt int
  | PStr string
  | PList "pyval list"
  | PDict "(pyval \<times> pyval) list"

type_synonym pydict = "(pyval \<times> pyval) list"

text \<open>The exceptions the pipeline can meet, each with its message (a \<^verbatim>\<open>KeyError\<close>
  with its key). All of them are caught by \<^verbatim>\<open>except Exception\<close>. \<open>StorageError\<close>
  stands for whatever the database session raises, \<open>CsvError\<close> for \<^verbatim>\<open>csv.Error\<close>.\<close>

datatype py_exc =
    KeyError string
  | ValueError string
  | TypeError string
  | AttributeError string
  | UnicodeDecodeError string
  | CsvError string
  | StorageError string

text \<open>Truth value testing, as \<^verbatim>\<open>or\<close>, \<^verbatim>\<open>if\<close> and \<^verbatim>\<open>any\<close> use it.\<close>

fun truthy :: "pyval \<Rightarrow> bool" where
  "truthy PNone = False"
| "truthy (PBool b) = b"
| "truthy (PInt i) = (i \<noteq> 0)"
| "truthy (PStr s) = (s \<noteq> [])"
| "truthy (PList xs) = (xs \<noteq> [])"
| "truthy (PDict kvs) = (kvs \<noteq> [])"

text \<open>
  \<^verbatim>\<open>a or b or ... or z\<close>: the first operand that is truthy, and the last operand
  when none is. The operands here are dictionary lookups without effects, so evaluating
  them all beforehand changes nothing.
\<close>

fun or_chain :: "pyval list \<Rightarrow> pyval" where
  "or_chain [] = PNone"
| "or_chain [x] = x"
| "or_chain (x # y # zs) = (if truthy x then x else or_chain (y # zs))"

text \<open>\<^verbatim>\<open>d.get(k)\<close>, \<^verbatim>\<open>d.get(k, default)\<close> and \<^verbatim>\<open>d[k]\<close> for a key that is a string.\<close>

definition py_get_default :: "pydict \<Rightarrow> string \<Rightarrow> pyval \<Rightarrow> pyval" where
  "py_get_default d k dflt = (case map_of d (PStr k) of None \<Rightarrow> dflt | Some v \<Rightarrow> v)"

definition py_get :: "pydict \<Rightarrow> string \<Rightarrow> pyval" where
  "py_get d k = py_get_default d k PNone"

definition py_item :: "pydict \<Rightarrow> string \<Rightarrow> py_exc + pyval" where
  "py_item d k = (case map_of d (PStr k) of None \<Rightarrow> Inl (KeyError k) | Some v \<Rightarrow> Inr v)"

subsection \<open>String forms\<close>

definition digit_char :: "nat \<Rightarrow> char" where
  "digit_char d = ''0123456789'' ! d"

fun str_nat :: "nat \<Rightarrow> string" where
  "str_nat n =
     (if n < 10 then [digit_char n]
      else str_nat (n div 10) @ [digit_char (n mod 10)])"

declare str_nat.simps [simp del]

definition str_int :: "int \<Rightarrow> string" where
  "str_int i = (if i < 0 then CHR ''-'' # str_nat (nat (- i)) else str_nat (nat i))"

fun join_str :: "string \<Rightarrow> string list \<Rightarrow> string" where
  "join_str sep [] = []"
| "join_str sep [x] = x"
| "join_str sep (x # y # zs) = x @ sep @ join_str sep (y # zs)"

text \<open>
  \<^verbatim>\<open>repr\<close>. The form of a \<^verbatim>\<open>str\<close> inside a container (the choice of quotes, the
  escapes of unprintable characters) depends on the Unicode tables of the interpreter;
  it is the parameter \<open>R\<close>. The rest is structural.
\<close>

primrec py_repr :: "(string \<Rightarrow> string) \<Rightarrow> pyval \<Rightarrow> string" where
  "py_repr R PNone = ''None''"
| "py_repr R (PBool b) = (if b then ''True'' else ''False'')"
| "py_repr R (PInt i) = str_int i"
| "py_repr R (PStr s) = R s"
| "py_repr R (PList xs) = ''['' @ join_str '', '' (map (py_repr R) xs) @ '']''"
| "py_repr R (PDict kvs) =
     ''{'' @ join_str '', ''
              (map (\<lambda>kv. fst kv @ '': '' @ snd kv) (map (map_prod (py_repr R) (py_repr R)) kvs))
     @ ''}''"

text \<open>\<^verbatim>\<open>str(v)\<close>, also what an f-string field \<^verbatim>\<open>{v}\<close> inserts.\<close>

definition py_str :: "(string \<Rightarrow> string) \<Rightarrow> pyval \<Rightarrow> string" where
  "py_str R v = (case v of PStr s \<Rightarrow> s | _ \<Rightarrow> py_repr R v)"

section \<open>The fingerprint\<close>

text \<open>
  \<^verbatim>\<open>generate_hash\<close> formats the four identifying fields into one key, separated by
  \<^verbatim>\<open>|\<close>, and returns the hexadecimal SHA-256 digest of the encoded key.
  \<^verbatim>\<open>hashlib.sha256(b).hexdigest()\<close> is the parameter \<open>H\<close>.
\<close>

definition hash_key :: "(string \<Rightarrow> string) \<Rightarrow> pydict \<Rightarrow> string" where
  "hash_key R tnx =
     py_str R (py_get tnx ''date'') @ ''|'' @ py_str R (py_get tnx ''amount'') @ ''|''
     @ py_str R (py_get tnx ''merchant'') @ ''|'' @ py_str R (py_get tnx ''source'')"

definition generate_hash :: "(string \<Rightarrow> string) \<Rightarrow> (string \<Rightarrow> string) \<Rightarrow> pydict \<Rightarrow> string" where
  "generate_hash H R tnx = H (hash_key R tnx)"

section \<open>The canonicalizer\<close>

text \<open>
  \<^verbatim>\<open>to_standard_format\<close> resolves each canonical field through an \<^verbatim>\<open>or\<close>-chain of
  \<^verbatim>\<open>raw_row.get(key)\<close> over the candidate keys below, in this order. The last key of
  \<open>date_keys\<close>, \<open>merchant_keys\<close>, \<open>category_keys\<close> and \<open>description_keys\<close> and
  the third key of \<open>amount_keys\<close> are the Cyrillic labels of the source, in UTF-8.
\<close>

definition date_keys :: "string list" where
  "date_keys = [''date'', ''Date'', ''created_at'', ''timestamp'',
     [CHR 0xD0, CHR 0x94, CHR 0xD0, CHR 0xB0, CHR 0xD1, CHR 0x82, CHR 0xD0, CHR 0xB0]]"

definition amount_keys :: "string list" where
  "amount_keys = [''amount'', ''Amount'',
     [CHR 0xD0, CHR 0xA1, CHR 0xD1, CHR 0x83, CHR 0xD0, CHR 0xBC, CHR 0xD0, CHR 0xBC,
      CHR 0xD0, CHR 0xB0],
     ''value'']"

definition merchant_keys :: "string list" where
  "merchant_keys = [''merchant'', ''Merchant'', ''recipient'', ''payee'',
     [CHR 0xD0, CHR 0x9F, CHR 0xD0, CHR 0xBE, CHR 0xD0, CHR 0xBB, CHR 0xD1, CHR 0x83,
      CHR 0xD1, CHR 0x87, CHR 0xD0, CHR 0xB0, CHR 0xD1, CHR 0x82, CHR 0xD0, CHR 0xB5,
      CHR 0xD0, CHR 0xBB, CHR 0xD1, CHR 0x8C]]"

definition category_keys :: "string list" where
  "category_keys = [''category'', ''Category'',
     [CHR 0xD0, CHR 0x9A, CHR 0xD0, CHR 0xB0, CHR 0xD1, CHR 0x82, CHR 0xD0, CHR 0xB5,
      CHR 0xD0, CHR 0xB3, CHR 0xD0, CHR 0xBE, CHR 0xD1, CHR 0x80, CHR 0xD0, CHR 0xB8,
      CHR 0xD1, CHR 0x8F]]"

definition description_keys :: "string list" where
  "description_keys = [''description'', ''Description'', ''note'',
     [CHR 0xD0, CHR 0x9E, CHR 0xD0, CHR 0xBF, CHR 0xD0, CHR 0xB8, CHR 0xD1, CHR 0x81,
      CHR 0xD0, CHR 0xB0, CHR 0xD0, CHR 0xBD, CHR 0xD0, CHR 0xB8, CHR 0xD0, CHR 0xB5]]"

definition external_id_keys :: "string list" where
  "external_id_keys = [''id'', ''transaction_id'', ''payment_id'']"

text \<open>
  The result is the dictionary \<^verbatim>\<open>standard\<close> with its eight keys in the order of the
  source, and \<^verbatim>\<open>transaction_hash\<close>, computed from \<^verbatim>\<open>standard\<close>, added last.
\<close>

definition to_standard_format ::
    "(string \<Rightarrow> string) \<Rightarrow> (string \<Rightarrow> string) \<Rightarrow> pydict \<Rightarrow> string \<Rightarrow> pydict" where
  "to_standard_format H R raw_row source =
     (let date = or_chain (map (py_get raw_row) date_keys);
          amount = or_chain (map (py_get raw_row) amount_keys);
          merchant = or_chain (map (py_get raw_row) merchant_keys);
          category = or_chain (map (py_get raw_row) category_keys);
          description = or_chain (map (py_get raw_row) description_keys);
          external_id = or_chain (map (py_get raw_row) external_id_keys);
          raw_payload = py_get_default raw_row ''raw_payload'' (PDict raw_row);
          standard =
            [(PStr ''date'', date),
             (PStr ''amount'', amount),
             (PStr ''merchant'', merchant),
             (PStr ''category'', category),
             (PStr ''description'', description),
             (PStr ''external_id'',
                if truthy external_id then PStr (py_str R external_id) else PNone),
             (PStr ''raw_payload'', raw_payload),
             (PStr ''source'', PStr source)]
      in standard @ [(PStr ''transaction_hash'', PStr (generate_hash H R standard))])"

section \<open>The source readers for JSON\<close>

definition sq :: "string \<Rightarrow> string" where
  "sq s = CHR 0x27 # s @ [CHR 0x27]"

fun type_name :: "pyval \<Rightarrow> string" where
  "type_name PNone = ''NoneType''"
| "type_name (PBool b) = ''bool''"
| "type_name (PInt i) = ''int''"
| "type_name (PStr s) = ''str''"
| "type_name (PList xs) = ''list''"
| "type_name (PDict kvs) = ''dict''"

text \<open>
  \<^verbatim>\<open>normalize_api_response\<close>. The third operand of the \<^verbatim>\<open>or\<close>-chain,
  \<^verbatim>\<open>data.get("result", {}).get("transactions")\<close>, is evaluated only when the first
  two are falsy, and raises \<^verbatim>\<open>AttributeError\<close> when the value under \<^verbatim>\<open>result\<close> is
  not a dictionary.
\<close>

fun normalize_api_response :: "pyval \<Rightarrow> py_exc + pyval" where
  "normalize_api_response (PList xs) = Inr (PList xs)"
| "normalize_api_response (PDict data) =
     (if truthy (py_get data ''data'') then Inr (py_get data ''data'')
      else if truthy (py_get data ''transactions'') then Inr (py_get data ''transactions'')
      else (case py_get_default data ''result'' (PDict []) of
              PDict result \<Rightarrow> Inr (or_chain [py_get result ''transactions'', PList []])
            | v \<Rightarrow> Inl (AttributeError
                        (sq (type_name v) @ '' object has no attribute '' @ sq ''get''))))"
| "normalize_api_response v =
     Inl (ValueError (''Unexpected API response type: <class '' @ sq (type_name v) @ ''>''))"

text \<open>
  \<^verbatim>\<open>uzum_webhook_to_standard\<close>. The conversion
  \<^verbatim>\<open>datetime.fromtimestamp(ts_ms / 1000).isoformat()\<close> depends on the time zone of the
  host and raises for an instant out of range; on a number of milliseconds it is the
  parameter \<open>conv\<close>. The division raises \<^verbatim>\<open>TypeError\<close> on a value that is not a
  number; \<^verbatim>\<open>True\<close> divides as 1.
\<close>

fun fromtimestamp_isoformat :: "(int \<Rightarrow> py_exc + string) \<Rightarrow> pyval \<Rightarrow> py_exc + string" where
  "fromtimestamp_isoformat conv (PInt i) = conv i"
| "fromtimestamp_isoformat conv (PBool b) = conv (if b then 1 else 0)"
| "fromtimestamp_isoformat conv v =
     Inl (TypeError (''unsupported operand type(s) for /: '' @ sq (type_name v)
                     @ '' and '' @ sq ''int''))"

definition uzum_ts_keys :: "string list" where
  "uzum_ts_keys = [''timestamp'', ''transTime'', ''confirmTime'']"

definition uzum_webhook_to_standard ::
    "(int \<Rightarrow> py_exc + string) \<Rightarrow> pydict \<Rightarrow> string \<Rightarrow> py_exc + pydict" where
  "uzum_webhook_to_standard conv payload event_type =
     (let ts_ms = or_chain (map (py_get payload) uzum_ts_keys)
      in case (if truthy ts_ms
               then (case fromtimestamp_isoformat conv ts_ms of
                       Inl e \<Rightarrow> Inl e | Inr s \<Rightarrow> Inr (PStr s))
               else Inr PNone) of
           Inl e \<Rightarrow> Inl e
         | Inr date \<Rightarrow>
             Inr [(PStr ''date'', date),
                  (PStr ''amount'', py_get payload ''amount''),
                  (PStr ''merchant'', PStr ''Uzum Bank''),
                  (PStr ''category'', PNone),
                  (PStr ''description'', PStr (''Uzum webhook: '' @ event_type)),
                  (PStr ''external_id'', py_get payload ''transId''),
                  (PStr ''raw_payload'', PDict payload),
                  (PStr ''source'', PStr ''uzum_webhook'')])"

section \<open>The batch loader\<close>

text \<open>\<^verbatim>\<open>str(e)\<close> for an exception: the message, and for a \<^verbatim>\<open>KeyError\<close> the
  \<^verbatim>\<open>repr\<close> of the missing key (the keys looked up here are plain identifiers).\<close>

fun exc_str :: "py_exc \<Rightarrow> string" where
  "exc_str (KeyError k) = sq k"
| "exc_str (ValueError m) = m"
| "exc_str (TypeError m) = m"
| "exc_str (AttributeError m) = m"
| "exc_str (UnicodeDecodeError m) = m"
| "exc_str (CsvError m) = m"
| "exc_str (StorageError m) = m"

text \<open>Sequencing of two steps of which the first may raise.\<close>

definition then_exc :: "py_exc + 'a \<Rightarrow> ('a \<Rightarrow> py_exc + 'b) \<Rightarrow> py_exc + 'b" where
  "then_exc r f = (case r of Inl e \<Rightarrow> Inl e | Inr v \<Rightarrow> f v)"

text \<open>
  The object \<^verbatim>\<open>models.Transaction(...)\<close> that \<^verbatim>\<open>save_to_database\<close> builds, with the
  keyword arguments of the call. The other columns of the table (\<^verbatim>\<open>id\<close>,
  \<^verbatim>\<open>currency\<close>, the timestamps) are filled by the database.
\<close>

record stored_transaction =
  owner_id :: int
  account_id :: "int option"
  amount :: string
  merchant :: pyval
  category :: pyval
  description :: pyval
  external_id :: pyval
  raw_payload :: pyval
  transaction_hash :: pyval
  processed :: bool

text \<open>
  The keyword arguments are evaluated in the order of the source; the first key missing
  from \<^verbatim>\<open>txn\<close> raises \<^verbatim>\<open>KeyError\<close>.
\<close>

definition new_transaction ::
    "(string \<Rightarrow> string) \<Rightarrow> int \<Rightarrow> int option \<Rightarrow> pydict \<Rightarrow> py_exc + stored_transaction" where
  "new_transaction R user_id acc_id txn =
     then_exc (py_item txn ''amount'') (\<lambda>a.
     then_exc (py_item txn ''merchant'') (\<lambda>m.
     then_exc (py_item txn ''category'') (\<lambda>c.
     then_exc (py_item txn ''description'') (\<lambda>d.
     then_exc (py_item txn ''external_id'') (\<lambda>x.
     then_exc (py_item txn ''raw_payload'') (\<lambda>p.
     then_exc (py_item txn ''transaction_hash'') (\<lambda>h.
       Inr \<lparr>owner_id = user_id, account_id = acc_id, amount = py_str R a, merchant = m,
            category = c, description = d, external_id = x, raw_payload = p,
            transaction_hash = h, processed = False\<rparr>)))))))"

text \<open>
  The session \<^verbatim>\<open>db\<close> is an object of the caller: a state of some type \<open>'db\<close> and the
  four operations \<^verbatim>\<open>save_to_database\<close> calls on it. Each operation returns its outcome
  (an exception or a value) and the next state. \<open>db_exists\<close> is
  \<^verbatim>\<open>db.execute(select ... where transaction_hash == h)\<close> followed by the truth value of
  \<^verbatim>\<open>existing.first()\<close>.
\<close>

record 'db session =
  db_exists :: "'db \<Rightarrow> pyval \<Rightarrow> (py_exc + bool) \<times> 'db"
  db_add :: "'db \<Rightarrow> stored_transaction \<Rightarrow> (py_exc + unit) \<times> 'db"
  db_commit :: "'db \<Rightarrow> (py_exc + unit) \<times> 'db"
  db_rollback :: "'db \<Rightarrow> (py_exc + unit) \<times> 'db"

text \<open>The dictionary \<^verbatim>\<open>{"saved": ..., "duplicates": ..., "errors": ...}\<close>.\<close>

record load_result =
  saved :: nat
  duplicates :: nat
  errors :: "string list"

text \<open>
  The body of the \<^verbatim>\<open>try\<close> for one record: \<open>Inr True\<close> when the record is a duplicate
  (the \<^verbatim>\<open>continue\<close>), \<open>Inr False\<close> when it was staged, \<open>Inl e\<close> when \<open>e\<close> was raised.
\<close>

definition try_row ::
    "'db session \<Rightarrow> (string \<Rightarrow> string) \<Rightarrow> int \<Rightarrow> int option \<Rightarrow> pydict \<Rightarrow> 'db
     \<Rightarrow> (py_exc + bool) \<times> 'db" where
  "try_row S R user_id acc_id txn db =
     (case py_item txn ''transaction_hash'' of
        Inl e \<Rightarrow> (Inl e, db)
      | Inr h \<Rightarrow>
          (case db_exists S db h of
             (Inl e, db1) \<Rightarrow> (Inl e, db1)
           | (Inr True, db1) \<Rightarrow> (Inr True, db1)
           | (Inr False, db1) \<Rightarrow>
               (case new_transaction R user_id acc_id txn of
                  Inl e \<Rightarrow> (Inl e, db1)
                | Inr t \<Rightarrow>
                    (case db_add S db1 t of
                       (Inl e, db2) \<Rightarrow> (Inl e, db2)
                     | (Inr u, db2) \<Rightarrow> (Inr False, db2)))))"

text \<open>One iteration of the loop, with the three tallies and the session.\<close>

definition save_row ::
    "'db session \<Rightarrow> (string \<Rightarrow> string) \<Rightarrow> int \<Rightarrow> int option \<Rightarrow> nat \<Rightarrow> pydict
     \<Rightarrow> load_result \<times> 'db \<Rightarrow> load_result \<times> 'db" where
  "save_row S R user_id acc_id idx txn st =
     (case try_row S R user_id acc_id txn (snd st) of
        (Inr True, db') \<Rightarrow> ((fst st)\<lparr>duplicates := duplicates (fst st) + 1\<rparr>, db')
      | (Inr False, db') \<Rightarrow> ((fst st)\<lparr>saved := saved (fst st) + 1\<rparr>, db')
      | (Inl e, db') \<Rightarrow>
          ((fst st)\<lparr>errors := errors (fst st) @ [''Row '' @ str_nat idx @ '': '' @ exc_str e]\<rparr>,
           db'))"

text \<open>\<^verbatim>\<open>for idx, txn in enumerate(transactions, start=1)\<close>.\<close>

fun save_loop ::
    "'db session \<Rightarrow> (string \<Rightarrow> string) \<Rightarrow> int \<Rightarrow> int option \<Rightarrow> nat \<Rightarrow> pydict list
     \<Rightarrow> load_result \<times> 'db \<Rightarrow> load_result \<times> 'db" where
  "save_loop S R user_id acc_id idx [] st = st"
| "save_loop S R user_id acc_id idx (txn # txns) st =
     save_loop S R user_id acc_id (Suc idx) txns (save_row S R user_id acc_id idx txn st)"

text \<open>
  The commit after the loop. When it raises, the session is rolled back and the exception
  is raised again; an exception of the rollback itself would replace it.
\<close>

definition commit_batch :: "'db session \<Rightarrow> load_result \<times> 'db \<Rightarrow> (py_exc + load_result) \<times> 'db" where
  "commit_batch S st =
     (case db_commit S (snd st) of
        (Inr u, db') \<Rightarrow> (Inr (fst st), db')
      | (Inl e, db') \<Rightarrow>
          (case db_rollback S db' of
             (Inr u, db'') \<Rightarrow> (Inl e, db'')
           | (Inl e', db'') \<Rightarrow> (Inl e', db'')))"

definition save_to_database ::
    "'db session \<Rightarrow> (string \<Rightarrow> string) \<Rightarrow> pydict list \<Rightarrow> int \<Rightarrow> int option \<Rightarrow> 'db
     \<Rightarrow> (py_exc + load_result) \<times> 'db" where
  "save_to_database S R transactions user_id acc_id db =
     commit_batch S
       (save_loop S R user_id acc_id 1 transactions
          (\<lparr>saved = 0, duplicates = 0, errors = []\<rparr>, db))"

subsection \<open>The storage collaborator\<close>

text \<open>
  Modelled from the spec: the storage collaborator (the database session and its
  configuration are not among the sources). Section 6 of the specification asks it for a
  lookup by fingerprint, the staging of a record, and the atomic commit or rollback of
  the staged records. The store keeps the committed records and the records staged by
  the open transaction. What it raises is left open: \<open>lookup_fault\<close>, \<open>stage_fault\<close>
  and \<open>commit_fault\<close> say, for a state and an argument, which exception an operation
  raises, if any (a lost connection, a type or uniqueness constraint). \<open>sees_staged\<close>
  says whether a lookup sees the records staged and not yet committed (a session that
  flushes before each query) or only the committed ones.
\<close>

record mem_db =
  committed :: "stored_transaction list"
  staged :: "stored_transaction list"

record faults =
  lookup_fault :: "mem_db \<Rightarrow> pyval \<Rightarrow> py_exc option"
  stage_fault :: "mem_db \<Rightarrow> stored_transaction \<Rightarrow> py_exc option"
  commit_fault :: "mem_db \<Rightarrow> py_exc option"
  sees_staged :: bool

definition visible :: "faults \<Rightarrow> mem_db \<Rightarrow> stored_transaction list" where
  "visible F db = committed db @ (if sees_staged F then staged db else [])"

definition mem_exists :: "faults \<Rightarrow> mem_db \<Rightarrow> pyval \<Rightarrow> (py_exc + bool) \<times> mem_db" where
  "mem_exists F db h =
     (case lookup_fault F db h of
        Some e \<Rightarrow> (Inl e, db)
      | None \<Rightarrow> (Inr (h \<in> set (map transaction_hash (visible F db))), db))"

definition mem_add :: "faults \<Rightarrow> mem_db \<Rightarrow> stored_transaction \<Rightarrow> (py_exc + unit) \<times> mem_db" where
  "mem_add F db t =
     (case stage_fault F db t of
        Some e \<Rightarrow> (Inl e, db)
      | None \<Rightarrow> (Inr (), db\<lparr>staged := staged db @ [t]\<rparr>))"

definition mem_commit :: "faults \<Rightarrow> mem_db \<Rightarrow> (py_exc + unit) \<times> mem_db" where
  "mem_commit F db =
     (case commit_fault F db of
        Some e \<Rightarrow> (Inl e, db)
      | None \<Rightarrow> (Inr (), \<lparr>committed = committed db @ staged db, staged = []\<rparr>))"

definition mem_rollback :: "mem_db \<Rightarrow> (py_exc + unit) \<times> mem_db" where
  "mem_rollback db = (Inr (), db\<lparr>staged := []\<rparr>)"

definition mem_session :: "faults \<Rightarrow> mem_db session" where
  "mem_session F =
     \<lparr>db_exists = mem_exists F, db_add = mem_add F, db_commit = mem_commit F,
      db_rollback = mem_rollback\<rparr>"

text \<open>A store in which no operation raises.\<close>

definition no_faults :: "bool \<Rightarrow> faults" where
  "no_faults b =
     \<lparr>lookup_fault = \<lambda>db h. None, stage_fault = \<lambda>db t. None, commit_fault = \<lambda>db. None,
      sees_staged = b\<rparr>"

section \<open>The delimited-text reader\<close>

text \<open>
  The input of \<^verbatim>\<open>read_csv_file\<close> is a byte string, one \<^typ>\<open>char\<close> per byte.
  \<^verbatim>\<open>bytes.decode("utf-8")\<close> accepts exactly the well-formed UTF-8 sequences (no
  overlong forms, no surrogates, nothing above U+10FFFF); as a \<^verbatim>\<open>str\<close> is represented
  by its UTF-8 encoding, the decoded text is the input itself.
\<close>

type_synonym bytes = "char list"

definition cont_byte :: "nat \<Rightarrow> bool" where
  "cont_byte b = (0x80 \<le> b \<and> b \<le> 0xBF)"

fun utf8_valid :: "nat list \<Rightarrow> bool" where
  "utf8_valid [] = True"
| "utf8_valid (b0 # bs) =
     (if b0 < 0x80 then utf8_valid bs
      else if 0xC2 \<le> b0 \<and> b0 \<le> 0xDF then
        (case bs of b1 # r \<Rightarrow> cont_byte b1 \<and> utf8_valid r | _ \<Rightarrow> False)
      else if b0 = 0xE0 then
        (case bs of b1 # b2 # r \<Rightarrow> 0xA0 \<le> b1 \<and> b1 \<le> 0xBF \<and> cont_byte b2 \<and> utf8_valid r
         | _ \<Rightarrow> False)
      else if (0xE1 \<le> b0 \<and> b0 \<le> 0xEC) \<or> b0 = 0xEE \<or> b0 = 0xEF then
        (case bs of b1 # b2 # r \<Rightarrow> cont_byte b1 \<and> cont_byte b2 \<and> utf8_valid r | _ \<Rightarrow> False)
      else if b0 = 0xED then
        (case bs of b1 # b2 # r \<Rightarrow> 0x80 \<le> b1 \<and> b1 \<le> 0x9F \<and> cont_byte b2 \<and> utf8_valid r
         | _ \<Rightarrow> False)
      else if b0 = 0xF0 then
        (case bs of b1 # b2 # b3 # r \<Rightarrow>
           0x90 \<le> b1 \<and> b1 \<le> 0xBF \<and> cont_byte b2 \<and> cont_byte b3 \<and> utf8_valid r
         | _ \<Rightarrow> False)
      else if 0xF1 \<le> b0 \<and> b0 \<le> 0xF3 then
        (case bs of b1 # b2 # b3 # r \<Rightarrow>
           cont_byte b1 \<and> cont_byte b2 \<and> cont_byte b3 \<and> utf8_valid r
         | _ \<Rightarrow> False)
      else if b0 = 0xF4 then
        (case bs of b1 # b2 # b3 # r \<Rightarrow>
           0x80 \<le> b1 \<and> b1 \<le> 0x8F \<and> cont_byte b2 \<and> cont_byte b3 \<and> utf8_valid r
         | _ \<Rightarrow> False)
      else False)"

definition decode_utf8 :: "bytes \<Rightarrow> string option" where
  "decode_utf8 file_bytes =
     (if utf8_valid (map of_char file_bytes) then Some file_bytes else None)"

text \<open>
  \<^verbatim>\<open>bytes.decode("windows-1251")\<close>: every byte is a character but \<^verbatim>\<open>0x98\<close>, which the
  code page leaves undefined. \<open>cp1251_high\<close> lists the code points of the bytes
  \<^verbatim>\<open>0x80\<close> to \<^verbatim>\<open>0xBF\<close>; the bytes from \<^verbatim>\<open>0xC0\<close> are the letters from U+0410.
\<close>

definition cp1251_high :: "nat list" where
  "cp1251_high =
     [0x0402, 0x0403, 0x201A, 0x0453, 0x201E, 0x2026, 0x2020, 0x2021,
      0x20AC, 0x2030, 0x0409, 0x2039, 0x040A, 0x040C, 0x040B, 0x040F,
      0x0452, 0x2018, 0x2019, 0x201C, 0x201D, 0x2022, 0x2013, 0x2014,
      0x0000, 0x2122, 0x0459, 0x203A, 0x045A, 0x045C, 0x045B, 0x045F,
      0x00A0, 0x040E, 0x045E, 0x0408, 0x00A4, 0x0490, 0x00A6, 0x00A7,
      0x0401, 0x00A9, 0x0404, 0x00AB, 0x00AC, 0x00AD, 0x00AE, 0x0407,
      0x00B0, 0x00B1, 0x0406, 0x0456, 0x0491, 0x00B5, 0x00B6, 0x00B7,
      0x0451, 0x2116, 0x0454, 0x00BB, 0x0458, 0x0405, 0x0455, 0x0457]"

definition cp1251_char :: "nat \<Rightarrow> nat option" where
  "cp1251_char b =
     (if b < 0x80 then Some b
      else if b = 0x98 then None
      else if b < 0xC0 then Some (cp1251_high ! (b - 0x80))
      else Some (0x410 + (b - 0xC0)))"

text \<open>The UTF-8 encoding of a code point below U+10000.\<close>

definition utf8_encode :: "nat \<Rightarrow> string" where
  "utf8_encode c =
     (if c < 0x80 then [char_of c]
      else if c < 0x800 then [char_of (0xC0 + c div 64), char_of (0x80 + c mod 64)]
      else [char_of (0xE0 + c div 4096), char_of (0x80 + c div 64 mod 64),
            char_of (0x80 + c mod 64)])"

fun decode_cp1251_from :: "nat \<Rightarrow> bytes \<Rightarrow> py_exc + string" where
  "decode_cp1251_from pos [] = Inr []"
| "decode_cp1251_from pos (c # cs) =
     (case cp1251_char (of_char c) of
        None \<Rightarrow>
          Inl (UnicodeDecodeError
                 (sq ''charmap'' @ '' codec can'' @ [CHR 0x27]
                  @ ''t decode byte 0x98 in position '' @ str_nat pos
                  @ '': character maps to <undefined>''))
      | Some cp \<Rightarrow>
          (case decode_cp1251_from (Suc pos) cs of
             Inl e \<Rightarrow> Inl e
           | Inr t \<Rightarrow> Inr (utf8_encode cp @ t)))"

definition decode_cp1251 :: "bytes \<Rightarrow> py_exc + string" where
  "decode_cp1251 file_bytes = decode_cp1251_from 0 file_bytes"

text \<open>
  Iterating \<^verbatim>\<open>io.StringIO(text)\<close> yields the lines of the text, each with its
  \<^verbatim>\<open>\n\<close>; a \<^verbatim>\<open>\r\<close> does not end a line.
\<close>

fun split_lines :: "string \<Rightarrow> string list" where
  "split_lines [] = []"
| "split_lines (c # cs) =
     (if c = CHR 0x0A then [c] # split_lines cs
      else (case split_lines cs of [] \<Rightarrow> [[c]] | l # ls \<Rightarrow> (c # l) # ls))"

text \<open>
  The parser of \<^verbatim>\<open>csv.reader\<close> in the default dialect (delimiter \<^verbatim>\<open>,\<close>, quote
  character \<^verbatim>\<open>"\<close> doubled inside a quoted field, no escape character, not strict), as
  the state machine of the interpreter (CPython 3.11, where a NUL is an ordinary
  character). The reader holds its state, the fields of the record so far, the field
  being read and the number of characters of that field; a field may not grow beyond
  131072 characters. A character is counted at its first byte.
\<close>

datatype parser_state =
  START_RECORD | START_FIELD | IN_FIELD | IN_QUOTED_FIELD | QUOTE_IN_QUOTED_FIELD | EAT_CRNL

datatype reader = Reader parser_state "string list" string nat

fun state_of :: "reader \<Rightarrow> parser_state" where
  "state_of (Reader s fs f n) = s"

fun fields_of :: "reader \<Rightarrow> string list" where
  "fields_of (Reader s fs f n) = fs"

fun field_len_of :: "reader \<Rightarrow> nat" where
  "field_len_of (Reader s fs f n) = n"

fun set_state :: "parser_state \<Rightarrow> reader \<Rightarrow> reader" where
  "set_state s' (Reader s fs f n) = Reader s' fs f n"

fun parse_save_field :: "reader \<Rightarrow> reader" where
  "parse_save_field (Reader s fs f n) = Reader s (fs @ [f]) [] 0"

fun parse_add_char :: "reader \<Rightarrow> char \<Rightarrow> py_exc + reader" where
  "parse_add_char (Reader s fs f n) c =
     (if cont_byte (of_char c) then Inr (Reader s fs (f @ [c]) n)
      else if n \<ge> 131072 then Inl (CsvError ''field larger than field limit (131072)'')
      else Inr (Reader s fs (f @ [c]) (Suc n)))"

text \<open>The character \<open>None\<close> is the end of a line (\<^verbatim>\<open>EOL\<close>).\<close>

definition is_newline :: "char option \<Rightarrow> bool" where
  "is_newline c = (c = Some (CHR 0x0A) \<or> c = Some (CHR 0x0D))"

definition end_state :: "char option \<Rightarrow> parser_state" where
  "end_state c = (if c = None then START_RECORD else EAT_CRNL)"

definition add_then :: "parser_state \<Rightarrow> reader \<Rightarrow> char option \<Rightarrow> py_exc + reader" where
  "add_then s r c =
     (case c of
        None \<Rightarrow> Inr (set_state s r)
      | Some ch \<Rightarrow> (case parse_add_char r ch of Inl e \<Rightarrow> Inl e | Inr r' \<Rightarrow> Inr (set_state s r')))"

definition start_field :: "reader \<Rightarrow> char option \<Rightarrow> py_exc + reader" where
  "start_field r c =
     (if is_newline c \<or> c = None then Inr (set_state (end_state c) (parse_save_field r))
      else if c = Some (CHR 0x22) then Inr (set_state IN_QUOTED_FIELD r)
      else if c = Some (CHR '','') then Inr (parse_save_field r)
      else add_then IN_FIELD r c)"

fun parse_process_char :: "reader \<Rightarrow> char option \<Rightarrow> py_exc + reader" where
  "parse_process_char r c =
     (case state_of r of
        START_RECORD \<Rightarrow>
          (if c = None then Inr r
           else if is_newline c then Inr (set_state EAT_CRNL r)
           else start_field (set_state START_FIELD r) c)
      | START_FIELD \<Rightarrow> start_field r c
      | IN_FIELD \<Rightarrow>
          (if is_newline c \<or> c = None then Inr (set_state (end_state c) (parse_save_field r))
           else if c = Some (CHR '','') then Inr (set_state START_FIELD (parse_save_field r))
           else add_then IN_FIELD r c)
      | IN_QUOTED_FIELD \<Rightarrow>
          (if c = None then Inr r
           else if c = Some (CHR 0x22) then Inr (set_state QUOTE_IN_QUOTED_FIELD r)
           else add_then IN_QUOTED_FIELD r c)
      | QUOTE_IN_QUOTED_FIELD \<Rightarrow>
          (if c = Some (CHR 0x22) then add_then IN_QUOTED_FIELD r c
           else if c = Some (CHR '','') then Inr (set_state START_FIELD (parse_save_field r))
           else if is_newline c \<or> c = None then
             Inr (set_state (end_state c) (parse_save_field r))
           else add_then IN_FIELD r c)
      | EAT_CRNL \<Rightarrow>
          (if is_newline c then Inr r
           else if c = None then Inr (set_state START_RECORD r)
           else Inl (CsvError
                  (''new-line character seen in unquoted field - ''
                   @ ''do you need to open the file with newline='' @ [CHR 0x27, CHR 0x27]
                   @ ''?''))))"

text \<open>One line: its characters, then the end of the line.\<close>

fun process_line :: "reader \<Rightarrow> string \<Rightarrow> py_exc + reader" where
  "process_line r [] = parse_process_char r None"
| "process_line r (c # cs) =
     (case parse_process_char r (Some c) of
        Inl e \<Rightarrow> Inl e
      | Inr r' \<Rightarrow> process_line r' cs)"

definition new_reader :: reader where
  "new_reader = Reader START_RECORD [] [] 0"

text \<open>
  All the records of the reader. A record ends with the line after which the state is
  \<open>START_RECORD\<close>; a quoted field runs over the end of a line. When the lines end inside
  a record, the record is returned with the field read so far. The list comprehension
  of \<^verbatim>\<open>read_csv_file\<close> consumes the reader to its end, so an error in any line is the
  outcome of the whole.
\<close>

fun reader_records :: "reader \<Rightarrow> string list \<Rightarrow> py_exc + string list list" where
  "reader_records r [] =
     (if field_len_of r \<noteq> 0 \<or> state_of r = IN_QUOTED_FIELD
      then Inr [fields_of (parse_save_field r)] else Inr [])"
| "reader_records r (l # ls) =
     (case process_line r l of
        Inl e \<Rightarrow> Inl e
      | Inr r' \<Rightarrow>
          if state_of r' = START_RECORD
          then (case reader_records new_reader ls of
                  Inl e \<Rightarrow> Inl e
                | Inr recs \<Rightarrow> Inr (fields_of r' # recs))
          else reader_records r' ls)"

text \<open>
  \<^verbatim>\<open>d[k] = v\<close> on a dictionary in insertion order, and the row of
  \<^verbatim>\<open>csv.DictReader\<close>: \<^verbatim>\<open>dict(zip(fieldnames, row))\<close>, the surplus values under the
  key \<^verbatim>\<open>None\<close>, the missing ones as \<^verbatim>\<open>None\<close>.
\<close>

fun dict_set :: "pydict \<Rightarrow> pyval \<Rightarrow> pyval \<Rightarrow> pydict" where
  "dict_set [] k v = [(k, v)]"
| "dict_set ((k', v') # d) k v = (if k' = k then (k, v) # d else (k', v') # dict_set d k v)"

definition dict_row :: "string list \<Rightarrow> string list \<Rightarrow> pydict" where
  "dict_row fieldnames row =
     (let d = foldl (\<lambda>d kv. dict_set d (PStr (fst kv)) (PStr (snd kv))) [] (zip fieldnames row);
          lf = length fieldnames;
          lr = length row
      in if lf < lr then dict_set d PNone (PList (map PStr (drop lf row)))
         else if lf > lr then foldl (\<lambda>d k. dict_set d (PStr k) PNone) d (drop lr fieldnames)
         else d)"

text \<open>The first record gives the field names; empty records after it are skipped.\<close>

definition dict_reader :: "string list list \<Rightarrow> pydict list" where
  "dict_reader recs =
     (case recs of
        [] \<Rightarrow> []
      | fieldnames # rest \<Rightarrow> map (dict_row fieldnames) (filter (\<lambda>row. row \<noteq> []) rest))"

definition csv_rows :: "string \<Rightarrow> py_exc + pydict list" where
  "csv_rows text =
     (case reader_records new_reader (split_lines text) of
        Inl e \<Rightarrow> Inl e
      | Inr recs \<Rightarrow> Inr (filter (\<lambda>row. list_ex truthy (map snd row)) (dict_reader recs)))"

definition read_csv_file :: "bytes \<Rightarrow> py_exc + pydict list" where
  "read_csv_file file_bytes =
     (case decode_utf8 file_bytes of
        Some text \<Rightarrow> csv_rows text
      | None \<Rightarrow>
          (case decode_cp1251 file_bytes of
             Inl e \<Rightarrow> Inl e
           | Inr text \<Rightarrow> csv_rows text))"

section \<open>The orchestrator for CSV\<close>



section \<open>Properties of the fingerprint\<close>

text \<open>
  C1. Two canonical transactions whose date, amount, merchant and source are equal have
  the same fingerprint, whatever their other fields are (category, description,
  external id, raw payload, or any further key): the fingerprint is a function of these
  four fields only. Equal fields are the same value of the same type; a missing key
  counts as \<^verbatim>\<open>None\<close>, which is what \<^verbatim>\<open>tnx.get\<close> returns for it.
\<close>

theorem generate_hash_deterministic:
  assumes "py_get t1 ''date'' = py_get t2 ''date''"
    and "py_get t1 ''amount'' = py_get t2 ''amount''"
    and "py_get t1 ''merchant'' = py_get t2 ''merchant''"
    and "py_get t1 ''source'' = py_get t2 ''source''"
  shows "generate_hash H R t1 = generate_hash H R t2"
  using assms by (simp add: generate_hash_def hash_key_def)

theorem generate_hash_deterministic_witness:
  "generate_hash (\<lambda>k. k) (\<lambda>s. s)
     [(PStr ''date'', PStr ''2025-01-15''), (PStr ''amount'', PStr ''-12000''),
      (PStr ''merchant'', PStr ''Shop''), (PStr ''category'', PStr ''Food''),
      (PStr ''description'', PStr ''Lunch''), (PStr ''external_id'', PStr ''17''),
      (PStr ''raw_payload'', PDict []), (PStr ''source'', PStr ''csv'')]
   = generate_hash (\<lambda>k. k) (\<lambda>s. s)
     [(PStr ''date'', PStr ''2025-01-15''), (PStr ''amount'', PStr ''-12000''),
      (PStr ''merchant'', PStr ''Shop''), (PStr ''category'', PNone),
      (PStr ''description'', PStr ''Dinner''), (PStr ''external_id'', PNone),
      (PStr ''raw_payload'', PList []), (PStr ''source'', PStr ''csv''),
      (PStr ''currency'', PStr ''UZS'')]"
  by (rule generate_hash_deterministic) (simp_all add: py_get_def py_get_default_def)

text \<open>
  C10. The fingerprint is not injective on the identifying fields. The four string forms
  are joined with \<^verbatim>\<open>|\<close> and nothing escapes a \<^verbatim>\<open>|\<close> inside a field: amount
  \<^verbatim>\<open>1\<close> with merchant \<^verbatim>\<open>m|x\<close> gives the same key, hence the same fingerprint, as
  amount \<^verbatim>\<open>1|m\<close> with merchant \<^verbatim>\<open>x\<close>, although the two (date, amount, merchant,
  source) tuples differ.
\<close>

theorem generate_hash_not_injective:
  "(py_get [(PStr ''date'', PStr ''2025-01-15''), (PStr ''amount'', PStr ''1''),
            (PStr ''merchant'', PStr ''m|x''), (PStr ''source'', PStr ''csv'')] ''amount'',
    py_get [(PStr ''date'', PStr ''2025-01-15''), (PStr ''amount'', PStr ''1''),
            (PStr ''merchant'', PStr ''m|x''), (PStr ''source'', PStr ''csv'')] ''merchant'')
   \<noteq>
   (py_get [(PStr ''date'', PStr ''2025-01-15''), (PStr ''amount'', PStr ''1|m''),
            (PStr ''merchant'', PStr ''x''), (PStr ''source'', PStr ''csv'')] ''amount'',
    py_get [(PStr ''date'', PStr ''2025-01-15''), (PStr ''amount'', PStr ''1|m''),
            (PStr ''merchant'', PStr ''x''), (PStr ''source'', PStr ''csv'')] ''merchant'')
   \<and>
   generate_hash H R
     [(PStr ''date'', PStr ''2025-01-15''), (PStr ''amount'', PStr ''1''),
      (PStr ''merchant'', PStr ''m|x''), (PStr ''source'', PStr ''csv'')]
   = generate_hash H R
     [(PStr ''date'', PStr ''2025-01-15''), (PStr ''amount'', PStr ''1|m''),
      (PStr ''merchant'', PStr ''x''), (PStr ''source'', PStr ''csv'')]"
  by (simp add: generate_hash_def hash_key_def py_get_def py_get_default_def py_str_def)

section \<open>Properties of the canonicalizer\<close>

lemma or_chain_map_find:
  "ks \<noteq> [] \<Longrightarrow>
   or_chain (map f ks) =
     (case find (\<lambda>k. truthy (f k)) ks of Some k \<Rightarrow> f k | None \<Rightarrow> f (last ks))"
proof (induction ks)
  case Nil
  then show ?case by simp
next
  case (Cons k ks)
  show ?case
  proof (cases ks)
    case Nil
    then show ?thesis by simp
  next
    case (Cons k' ks')
    with Cons.IH show ?thesis by (auto split: option.splits)
  qed
qed

lemma standard_date:
  "py_get (to_standard_format H R raw src) ''date'' = or_chain (map (py_get raw) date_keys)"
  by (simp add: to_standard_format_def Let_def py_get_def py_get_default_def)

lemma standard_amount:
  "py_get (to_standard_format H R raw src) ''amount'' = or_chain (map (py_get raw) amount_keys)"
  by (simp add: to_standard_format_def Let_def py_get_def py_get_default_def)

lemma standard_merchant:
  "py_get (to_standard_format H R raw src) ''merchant'' = or_chain (map (py_get raw) merchant_keys)"
  by (simp add: to_standard_format_def Let_def py_get_def py_get_default_def)

lemma standard_category:
  "py_get (to_standard_format H R raw src) ''category'' = or_chain (map (py_get raw) category_keys)"
  by (simp add: to_standard_format_def Let_def py_get_def py_get_default_def)

lemma standard_description:
  "py_get (to_standard_format H R raw src) ''description''
   = or_chain (map (py_get raw) description_keys)"
  by (simp add: to_standard_format_def Let_def py_get_def py_get_default_def)

lemma standard_external_id:
  "py_get (to_standard_format H R raw src) ''external_id''
   = (if truthy (or_chain (map (py_get raw) external_id_keys))
      then PStr (py_str R (or_chain (map (py_get raw) external_id_keys))) else PNone)"
  by (simp add: to_standard_format_def Let_def py_get_def py_get_default_def)

lemma find_Some_holds: "find P ks = Some k \<Longrightarrow> P k"
  by (induction ks) (auto split: if_splits)

lemma find_None_fails: "find P ks = None \<Longrightarrow> k \<in> set ks \<Longrightarrow> \<not> P k"
  by (induction ks) (auto split: if_splits)

text \<open>
  C6, as the claim states it, fails: a candidate key that is present with an empty or
  zero value does not win. A CSV row with an empty \<^verbatim>\<open>amount\<close> cell and 100 under the
  Cyrillic label gets the amount 100.
\<close>

theorem to_standard_format_skips_empty:
  "map_of [(PStr ''amount'', PStr []), (PStr (amount_keys ! 2), PStr ''100'')] (PStr ''amount'')
     = Some (PStr [])
   \<and> py_get (to_standard_format (\<lambda>k. k) (\<lambda>s. s)
               [(PStr ''amount'', PStr []), (PStr (amount_keys ! 2), PStr ''100'')] ''csv'')
        ''amount''
     = PStr ''100''"
  unfolding standard_amount by (simp add: amount_keys_def py_get_def py_get_default_def)

text \<open>
  C6, amended. Each of date, amount, merchant, category and description is the value
  under the first candidate key, in the listed order, whose value is truthy; when no
  candidate has a truthy value it is the value under the last candidate (\<^verbatim>\<open>None\<close> when
  that key is absent). The external id is the string form of the value under the first
  candidate with a truthy value, and \<^verbatim>\<open>None\<close> when there is none.
\<close>

theorem to_standard_format_first_truthy:
  "py_get (to_standard_format H R raw src) ''date''
     = (case find (\<lambda>k. truthy (py_get raw k)) date_keys of
          Some k \<Rightarrow> py_get raw k | None \<Rightarrow> py_get raw (last date_keys))
   \<and> py_get (to_standard_format H R raw src) ''amount''
     = (case find (\<lambda>k. truthy (py_get raw k)) amount_keys of
          Some k \<Rightarrow> py_get raw k | None \<Rightarrow> py_get raw (last amount_keys))
   \<and> py_get (to_standard_format H R raw src) ''merchant''
     = (case find (\<lambda>k. truthy (py_get raw k)) merchant_keys of
          Some k \<Rightarrow> py_get raw k | None \<Rightarrow> py_get raw (last merchant_keys))
   \<and> py_get (to_standard_format H R raw src) ''category''
     = (case find (\<lambda>k. truthy (py_get raw k)) category_keys of
          Some k \<Rightarrow> py_get raw k | None \<Rightarrow> py_get raw (last category_keys))
   \<and> py_get (to_standard_format H R raw src) ''description''
     = (case find (\<lambda>k. truthy (py_get raw k)) description_keys of
          Some k \<Rightarrow> py_get raw k | None \<Rightarrow> py_get raw (last description_keys))
   \<and> py_get (to_standard_format H R raw src) ''external_id''
     = (case find (\<lambda>k. truthy (py_get raw k)) external_id_keys of
          Some k \<Rightarrow> PStr (py_str R (py_get raw k)) | None \<Rightarrow> PNone)"
proof -
  have ne: "date_keys \<noteq> []" "amount_keys \<noteq> []" "merchant_keys \<noteq> []"
    "category_keys \<noteq> []" "description_keys \<noteq> []" "external_id_keys \<noteq> []"
    by (simp_all add: date_keys_def amount_keys_def merchant_keys_def category_keys_def
        description_keys_def external_id_keys_def)
  have ext: "py_get (to_standard_format H R raw src) ''external_id''
     = (case find (\<lambda>k. truthy (py_get raw k)) external_id_keys of
          Some k \<Rightarrow> PStr (py_str R (py_get raw k)) | None \<Rightarrow> PNone)"
  proof (cases "find (\<lambda>k. truthy (py_get raw k)) external_id_keys")
    case None
    have "last external_id_keys \<in> set external_id_keys"
      using ne(6) by simp
    with None have "\<not> truthy (py_get raw (last external_id_keys))"
      by (rule find_None_fails)
    with None show ?thesis
      by (simp add: standard_external_id or_chain_map_find [OF ne(6)])
  next
    case (Some k)
    then have "truthy (py_get raw k)"
      by (rule find_Some_holds)
    with Some show ?thesis
      by (simp add: standard_external_id or_chain_map_find [OF ne(6)])
  qed
  show ?thesis
    by (simp only: standard_date standard_amount standard_merchant standard_category
        standard_description or_chain_map_find [OF ne(1)] or_chain_map_find [OF ne(2)]
        or_chain_map_find [OF ne(3)] or_chain_map_find [OF ne(4)]
        or_chain_map_find [OF ne(5)] ext simp_thms)
qed

section \<open>Properties of the JSON readers\<close>

text \<open>
  C5, as the claim states it, fails: the first present key does not win when its value
  is an empty sequence. With \<^verbatim>\<open>data\<close> present and empty and one record under
  \<^verbatim>\<open>transactions\<close>, the result is the sequence under \<^verbatim>\<open>transactions\<close>.
\<close>

theorem normalize_api_response_skips_empty:
  "map_of [(PStr ''data'', PList []),
           (PStr ''transactions'', PList [PDict [(PStr ''id'', PInt 1)]])] (PStr ''data'')
     = Some (PList [])
   \<and> normalize_api_response
       (PDict [(PStr ''data'', PList []),
               (PStr ''transactions'', PList [PDict [(PStr ''id'', PInt 1)]])])
     = Inr (PList [PDict [(PStr ''id'', PInt 1)]])"
  by (simp add: py_get_def py_get_default_def)

text \<open>
  C5, amended. A sequence is returned as it is. For a mapping the candidates are tried in
  the order \<^verbatim>\<open>data\<close>, \<^verbatim>\<open>transactions\<close>, \<^verbatim>\<open>result.transactions\<close>, and the first one
  whose value is truthy (present and not empty) is returned; when \<^verbatim>\<open>data\<close> and
  \<^verbatim>\<open>transactions\<close> have no truthy value and \<^verbatim>\<open>result\<close> is absent or a mapping without a
  truthy \<^verbatim>\<open>transactions\<close>, the result is the empty sequence (so it is when none of the
  keys is present). A value that is neither a sequence nor a mapping fails with
  \<^verbatim>\<open>ValueError\<close>. In the fourth part \<open>py_get_default d ''result'' (PDict []) = PDict r\<close>
  says that \<^verbatim>\<open>result\<close> is absent (\<open>r = []\<close>) or holds the mapping \<open>r\<close>.
\<close>

theorem normalize_api_response_first_truthy:
  "normalize_api_response (PList xs) = Inr (PList xs)
   \<and> (truthy (py_get d ''data'') \<longrightarrow>
        normalize_api_response (PDict d) = Inr (py_get d ''data''))
   \<and> (\<not> truthy (py_get d ''data'') \<and> truthy (py_get d ''transactions'') \<longrightarrow>
        normalize_api_response (PDict d) = Inr (py_get d ''transactions''))
   \<and> (\<not> truthy (py_get d ''data'') \<and> \<not> truthy (py_get d ''transactions'')
        \<and> py_get_default d ''result'' (PDict []) = PDict r \<longrightarrow>
        normalize_api_response (PDict d)
          = Inr (if truthy (py_get r ''transactions'') then py_get r ''transactions''
                 else PList []))
   \<and> ((\<forall>ys. v \<noteq> PList ys) \<and> (\<forall>m. v \<noteq> PDict m) \<longrightarrow>
        (\<exists>msg. normalize_api_response v = Inl (ValueError msg)))"
proof -
  have other: "(\<forall>ys. v \<noteq> PList ys) \<and> (\<forall>m. v \<noteq> PDict m) \<longrightarrow>
        (\<exists>msg. normalize_api_response v = Inl (ValueError msg))"
    by (cases v) simp_all
  show ?thesis
    using other by simp
qed

theorem normalize_api_response_first_truthy_witness:
  "normalize_api_response (PList [PDict [(PStr ''id'', PInt 1)]])
     = Inr (PList [PDict [(PStr ''id'', PInt 1)]])
   \<and> normalize_api_response (PDict [(PStr ''data'', PList [PDict [(PStr ''id'', PInt 1)]])])
     = Inr (PList [PDict [(PStr ''id'', PInt 1)]])
   \<and> normalize_api_response
       (PDict [(PStr ''transactions'', PList [PDict [(PStr ''id'', PInt 1)]])])
     = Inr (PList [PDict [(PStr ''id'', PInt 1)]])
   \<and> normalize_api_response
       (PDict [(PStr ''result'',
                PDict [(PStr ''transactions'', PList [PDict [(PStr ''id'', PInt 1)]])])])
     = Inr (PList [PDict [(PStr ''id'', PInt 1)]])
   \<and> normalize_api_response (PDict [(PStr ''foo'', PStr ''bar'')]) = Inr (PList [])
   \<and> (\<exists>msg. normalize_api_response (PInt 5) = Inl (ValueError msg))"
proof -
  let ?x = "PList [PDict [(PStr ''id'', PInt 1)]]"
  note a = normalize_api_response_first_truthy
    [of "[PDict [(PStr ''id'', PInt 1)]]" "[(PStr ''data'', ?x)]" "[]" "PInt 5"]
  note b = normalize_api_response_first_truthy
    [of "[]" "[(PStr ''transactions'', ?x)]" "[]" "PInt 5"]
  note c = normalize_api_response_first_truthy
    [of "[]" "[(PStr ''result'', PDict [(PStr ''transactions'', ?x)])]"
        "[(PStr ''transactions'', ?x)]" "PInt 5"]
  note d = normalize_api_response_first_truthy
    [of "[]" "[(PStr ''foo'', PStr ''bar'')]" "[]" "PInt 5"]
  have 1: "normalize_api_response ?x = Inr ?x"
    using a by blast
  have 2: "normalize_api_response (PDict [(PStr ''data'', ?x)]) = Inr ?x"
    using a by (simp add: py_get_def py_get_default_def)
  have 3: "normalize_api_response (PDict [(PStr ''transactions'', ?x)]) = Inr ?x"
    using b by (simp add: py_get_def py_get_default_def)
  have 4: "normalize_api_response
             (PDict [(PStr ''result'', PDict [(PStr ''transactions'', ?x)])]) = Inr ?x"
    using c by (simp add: py_get_def py_get_default_def)
  have 5: "normalize_api_response (PDict [(PStr ''foo'', PStr ''bar'')]) = Inr (PList [])"
    using d by (simp add: py_get_def py_get_default_def)
  have 6: "\<exists>msg. normalize_api_response (PInt 5) = Inl (ValueError msg)"
    using a by blast
  from 1 2 3 4 5 6 show ?thesis by blast
qed

text \<open>
  C9, as the claim states it, fails: a candidate field that is present with the value 0
  is passed over, and when no other candidate is truthy the date is \<^verbatim>\<open>None\<close> although
  a candidate is present.
\<close>

theorem uzum_webhook_zero_timestamp:
  "map_of [(PStr ''timestamp'', PInt 0)] (PStr ''timestamp'') = Some (PInt 0)
   \<and> uzum_webhook_to_standard (\<lambda>ms. Inr ''1970-01-01T00:00:00'')
       [(PStr ''timestamp'', PInt 0)] ''payment''
     = Inr [(PStr ''date'', PNone),
            (PStr ''amount'', PNone),
            (PStr ''merchant'', PStr ''Uzum Bank''),
            (PStr ''category'', PNone),
            (PStr ''description'', PStr ''Uzum webhook: payment''),
            (PStr ''external_id'', PNone),
            (PStr ''raw_payload'', PDict [(PStr ''timestamp'', PInt 0)]),
            (PStr ''source'', PStr ''uzum_webhook'')]"
  by (simp add: uzum_webhook_to_standard_def uzum_ts_keys_def py_get_def py_get_default_def)

text \<open>
  C9, amended. When none of \<^verbatim>\<open>timestamp\<close>, \<^verbatim>\<open>transTime\<close>, \<^verbatim>\<open>confirmTime\<close> has a truthy
  value (each is absent, \<^verbatim>\<open>None\<close> or zero), the call returns one record with the date
  \<^verbatim>\<open>None\<close>. When \<open>k\<close> is the first of them, in this order, with a truthy value, that
  value is an integer number of milliseconds and its conversion succeeds, the call
  returns one record whose date is the converted instant. In both cases the merchant is
  \<^verbatim>\<open>Uzum Bank\<close> and the source \<^verbatim>\<open>uzum_webhook\<close>.
\<close>

theorem uzum_webhook_to_standard_first_truthy:
  "(find (\<lambda>k. truthy (py_get payload k)) uzum_ts_keys = None \<longrightarrow>
      (\<exists>rec. uzum_webhook_to_standard conv payload ev = Inr rec
             \<and> py_get rec ''date'' = PNone
             \<and> py_get rec ''merchant'' = PStr ''Uzum Bank''
             \<and> py_get rec ''source'' = PStr ''uzum_webhook''))
   \<and> (find (\<lambda>k. truthy (py_get payload k)) uzum_ts_keys = Some k
        \<and> py_get payload k = PInt ms \<and> conv ms = Inr s \<longrightarrow>
      (\<exists>rec. uzum_webhook_to_standard conv payload ev = Inr rec
             \<and> py_get rec ''date'' = PStr s
             \<and> py_get rec ''merchant'' = PStr ''Uzum Bank''
             \<and> py_get rec ''source'' = PStr ''uzum_webhook''))"
proof -
  have ne: "uzum_ts_keys \<noteq> []"
    by (simp add: uzum_ts_keys_def)
  let ?ts = "or_chain (map (py_get payload) uzum_ts_keys)"
  have none: "\<not> truthy ?ts" if f: "find (\<lambda>k. truthy (py_get payload k)) uzum_ts_keys = None"
  proof -
    have "last uzum_ts_keys \<in> set uzum_ts_keys"
      using ne by simp
    with f have "\<not> truthy (py_get payload (last uzum_ts_keys))"
      by (rule find_None_fails)
    with f show ?thesis
      by (simp add: or_chain_map_find [OF ne])
  qed
  have some: "?ts = PInt ms \<and> truthy ?ts"
    if f: "find (\<lambda>k. truthy (py_get payload k)) uzum_ts_keys = Some k"
      and v: "py_get payload k = PInt ms"
  proof -
    from f have "truthy (py_get payload k)"
      by (rule find_Some_holds)
    with f v show ?thesis
      by (simp add: or_chain_map_find [OF ne])
  qed
  show ?thesis
  proof (intro conjI impI)
    assume "find (\<lambda>k. truthy (py_get payload k)) uzum_ts_keys = None"
    then have "\<not> truthy ?ts"
      by (rule none)
    then show "\<exists>rec. uzum_webhook_to_standard conv payload ev = Inr rec
             \<and> py_get rec ''date'' = PNone
             \<and> py_get rec ''merchant'' = PStr ''Uzum Bank''
             \<and> py_get rec ''source'' = PStr ''uzum_webhook''"
      by (simp add: uzum_webhook_to_standard_def Let_def py_get_def py_get_default_def)
  next
    assume a: "find (\<lambda>k. truthy (py_get payload k)) uzum_ts_keys = Some k
        \<and> py_get payload k = PInt ms \<and> conv ms = Inr s"
    then have "?ts = PInt ms \<and> truthy ?ts"
      using some by blast
    then have ts: "?ts = PInt ms" and nz: "ms \<noteq> 0"
      by auto
    from a have cv: "conv ms = Inr s"
      by blast
    show "\<exists>rec. uzum_webhook_to_standard conv payload ev = Inr rec
             \<and> py_get rec ''date'' = PStr s
             \<and> py_get rec ''merchant'' = PStr ''Uzum Bank''
             \<and> py_get rec ''source'' = PStr ''uzum_webhook''"
      by (simp add: uzum_webhook_to_standard_def Let_def ts nz cv py_get_def
          py_get_default_def)
  qed
qed

theorem uzum_webhook_to_standard_first_truthy_witness:
  "(\<exists>rec. uzum_webhook_to_standard (\<lambda>ms. Inr ''2023-11-14T22:13:20'')
             [(PStr ''amount'', PInt 5000)] ''payment'' = Inr rec
          \<and> py_get rec ''date'' = PNone
          \<and> py_get rec ''merchant'' = PStr ''Uzum Bank''
          \<and> py_get rec ''source'' = PStr ''uzum_webhook'')
   \<and> (\<exists>rec. uzum_webhook_to_standard (\<lambda>ms. Inr ''2023-11-14T22:13:20'')
             [(PStr ''timestamp'', PInt 0), (PStr ''transTime'', PInt 1700000000000)]
             ''payment'' = Inr rec
          \<and> py_get rec ''date'' = PStr ''2023-11-14T22:13:20''
          \<and> py_get rec ''merchant'' = PStr ''Uzum Bank''
          \<and> py_get rec ''source'' = PStr ''uzum_webhook'')"
proof -
  have f1: "find (\<lambda>k. truthy (py_get [(PStr ''amount'', PInt 5000)] k)) uzum_ts_keys = None"
    by (simp add: uzum_ts_keys_def py_get_def py_get_default_def)
  have f2: "find (\<lambda>k. truthy (py_get [(PStr ''timestamp'', PInt 0),
                (PStr ''transTime'', PInt 1700000000000)] k)) uzum_ts_keys = Some ''transTime''
        \<and> py_get [(PStr ''timestamp'', PInt 0), (PStr ''transTime'', PInt 1700000000000)]
             ''transTime'' = PInt 1700000000000
        \<and> (\<lambda>ms::int. (Inr ''2023-11-14T22:13:20'' :: py_exc + string)) 1700000000000
             = Inr ''2023-11-14T22:13:20''"
    by (simp add: uzum_ts_keys_def py_get_def py_get_default_def)
  show ?thesis
    using uzum_webhook_to_standard_first_truthy
        [of "[(PStr ''amount'', PInt 5000)]" "\<lambda>ms. Inr ''2023-11-14T22:13:20''" "''payment''"
            "''transTime''" 0 "[]"]
      uzum_webhook_to_standard_first_truthy
        [of "[(PStr ''timestamp'', PInt 0), (PStr ''transTime'', PInt 1700000000000)]"
            "\<lambda>ms. Inr ''2023-11-14T22:13:20''" "''payment''"
            "''transTime''" 1700000000000 "''2023-11-14T22:13:20''"]
      f1 f2
    by blast
qed

section \<open>Properties of the batch loader\<close>

lemma save_row_tally:
  "saved (fst (save_row S R u a idx txn st)) + duplicates (fst (save_row S R u a idx txn st))
     + length (errors (fst (save_row S R u a idx txn st)))
   = Suc (saved (fst st) + duplicates (fst st) + length (errors (fst st)))"
  by (simp add: save_row_def split: prod.splits sum.splits bool.splits)

lemma save_loop_tally:
  "saved (fst (save_loop S R u a idx txns st)) + duplicates (fst (save_loop S R u a idx txns st))
     + length (errors (fst (save_loop S R u a idx txns st)))
   = saved (fst st) + duplicates (fst st) + length (errors (fst st)) + length txns"
proof (induction txns arbitrary: idx st)
  case Nil
  show ?case by simp
next
  case (Cons txn txns)
  show ?case
    by (simp add: Cons.IH save_row_tally)
qed

lemma save_loop_append:
  "save_loop S R u a idx (xs @ ys) st
   = save_loop S R u a (idx + length xs) ys (save_loop S R u a idx xs st)"
  by (induction xs arbitrary: idx st) simp_all

lemma commit_batch_ok:
  "fst (db_commit S (snd st)) = Inr () \<Longrightarrow>
   commit_batch S st = (Inr (fst st), snd (db_commit S (snd st)))"
  by (cases "db_commit S (snd st)") (auto simp: commit_batch_def)

text \<open>
  C7. When the commit of the batch succeeds, \<^verbatim>\<open>save_to_database\<close> returns a result, and
  every input record is counted in exactly one of its tallies: saved, duplicates and
  the number of errors add up to the number of input transactions. This holds for every
  session, whatever its operations do.
\<close>

theorem save_to_database_accounts_for_all:
  assumes "fst (db_commit S (snd (save_loop S R user_id acc_id 1 transactions
                 (\<lparr>saved = 0, duplicates = 0, errors = []\<rparr>, db)))) = Inr ()"
  shows "\<exists>res db'. save_to_database S R transactions user_id acc_id db = (Inr res, db')
           \<and> saved res + duplicates res + length (errors res) = length transactions"
proof -
  let ?st = "save_loop S R user_id acc_id 1 transactions
               (\<lparr>saved = 0, duplicates = 0, errors = []\<rparr>, db)"
  have "save_to_database S R transactions user_id acc_id db
        = (Inr (fst ?st), snd (db_commit S (snd ?st)))"
    using assms by (simp add: save_to_database_def commit_batch_ok)
  moreover have "saved (fst ?st) + duplicates (fst ?st) + length (errors (fst ?st))
        = length transactions"
    by (simp add: save_loop_tally)
  ultimately show ?thesis
    by blast
qed

lemmas loader_defs =
  save_to_database_def commit_batch_def save_row_def try_row_def new_transaction_def
  then_exc_def py_item_def py_str_def mem_session_def mem_exists_def mem_add_def
  mem_commit_def mem_rollback_def visible_def

theorem save_to_database_accounts_for_all_witness:
  "\<exists>res db'.
     save_to_database (mem_session (no_faults True)) (\<lambda>s. s)
       [to_standard_format (\<lambda>k. k) (\<lambda>s. s) [(PStr ''amount'', PStr ''10'')] ''csv'',
        to_standard_format (\<lambda>k. k) (\<lambda>s. s) [(PStr ''amount'', PStr ''10'')] ''csv'',
        [(PStr ''transaction_hash'', PStr ''abc'')]]
       7 None \<lparr>committed = [], staged = []\<rparr> = (Inr res, db')
     \<and> saved res + duplicates res + length (errors res)
       = length
          [to_standard_format (\<lambda>k. k) (\<lambda>s. s) [(PStr ''amount'', PStr ''10'')] ''csv'',
           to_standard_format (\<lambda>k. k) (\<lambda>s. s) [(PStr ''amount'', PStr ''10'')] ''csv'',
           [(PStr ''transaction_hash'', PStr ''abc'')]]"
  by (rule save_to_database_accounts_for_all) (simp add: mem_session_def mem_commit_def no_faults_def)

text \<open>
  C4. When the record at position \<open>length pre + 1\<close> raises inside the \<^verbatim>\<open>try\<close> (during
  the lookup or the staging), the exception is caught: it becomes one entry of
  \<^verbatim>\<open>errors\<close> tagged with that 1-based position, the tallies \<^verbatim>\<open>saved\<close> and
  \<^verbatim>\<open>duplicates\<close> stay as the records before it left them, and the loop goes on with
  every following record, in order, before the commit.
\<close>

theorem save_to_database_row_error_isolated:
  assumes "save_loop S R user_id acc_id 1 pre (\<lparr>saved = 0, duplicates = 0, errors = []\<rparr>, db)
           = (res1, db1)"
    and "try_row S R user_id acc_id txn db1 = (Inl e, db2)"
  shows "save_to_database S R (pre @ txn # post) user_id acc_id db
         = commit_batch S
             (save_loop S R user_id acc_id (length pre + 2) post
                (res1\<lparr>errors := errors res1
                         @ [''Row '' @ str_nat (length pre + 1) @ '': '' @ exc_str e]\<rparr>, db2))"
  using assms by (simp add: save_to_database_def save_loop_append save_row_def)


theorem save_to_database_row_error_isolated_witness:
  "fst (save_to_database
          (mem_session
             \<lparr>lookup_fault = \<lambda>db h. None,
              stage_fault = \<lambda>db t. if amount t = ''abc''
                 then Some (StorageError ''invalid input syntax for type numeric'') else None,
              commit_fault = \<lambda>db. None, sees_staged = True\<rparr>)
          (\<lambda>s. s)
          ([to_standard_format (\<lambda>k. k) (\<lambda>s. s) [(PStr ''amount'', PStr ''10'')] ''csv'',
            to_standard_format (\<lambda>k. k) (\<lambda>s. s) [(PStr ''amount'', PStr ''20'')] ''csv'']
           @ to_standard_format (\<lambda>k. k) (\<lambda>s. s) [(PStr ''amount'', PStr ''abc'')] ''csv''
           # [to_standard_format (\<lambda>k. k) (\<lambda>s. s) [(PStr ''amount'', PStr ''40'')] ''csv'',
              to_standard_format (\<lambda>k. k) (\<lambda>s. s) [(PStr ''amount'', PStr ''50'')] ''csv''])
          1 (Some 1) \<lparr>committed = [], staged = []\<rparr>)
   = Inr \<lparr>saved = 4, duplicates = 0,
          errors = [''Row 3: invalid input syntax for type numeric'']\<rparr>
   \<and> map amount (committed (snd (save_to_database
          (mem_session
             \<lparr>lookup_fault = \<lambda>db h. None,
              stage_fault = \<lambda>db t. if amount t = ''abc''
                 then Some (StorageError ''invalid input syntax for type numeric'') else None,
              commit_fault = \<lambda>db. None, sees_staged = True\<rparr>)
          (\<lambda>s. s)
          ([to_standard_format (\<lambda>k. k) (\<lambda>s. s) [(PStr ''amount'', PStr ''10'')] ''csv'',
            to_standard_format (\<lambda>k. k) (\<lambda>s. s) [(PStr ''amount'', PStr ''20'')] ''csv'']
           @ to_standard_format (\<lambda>k. k) (\<lambda>s. s) [(PStr ''amount'', PStr ''abc'')] ''csv''
           # [to_standard_format (\<lambda>k. k) (\<lambda>s. s) [(PStr ''amount'', PStr ''40'')] ''csv'',
              to_standard_format (\<lambda>k. k) (\<lambda>s. s) [(PStr ''amount'', PStr ''50'')] ''csv''])
          1 (Some 1) \<lparr>committed = [], staged = []\<rparr>)))
   = [''10'', ''20'', ''40'', ''50'']"
proof -
  let ?F = "\<lparr>lookup_fault = \<lambda>db h. None,
              stage_fault = \<lambda>db t. if amount t = ''abc''
                 then Some (StorageError ''invalid input syntax for type numeric'') else None,
              commit_fault = \<lambda>db. None, sees_staged = True\<rparr>"
  let ?t = "\<lambda>a. to_standard_format (\<lambda>k. k) (\<lambda>s. s) [(PStr ''amount'', PStr a)] ''csv''"
  let ?st = "save_loop (mem_session ?F) (\<lambda>s. s) 1 (Some 1) 1 [?t ''10'', ?t ''20'']
               (\<lparr>saved = 0, duplicates = 0, errors = []\<rparr>, \<lparr>committed = [], staged = []\<rparr>)"
  have keys: "hash_key (\<lambda>s. s) = (\<lambda>tnx. py_str (\<lambda>s. s) (py_get tnx ''date'') @ ''|''
      @ py_str (\<lambda>s. s) (py_get tnx ''amount'') @ ''|''
      @ py_str (\<lambda>s. s) (py_get tnx ''merchant'') @ ''|'' @ py_str (\<lambda>s. s) (py_get tnx ''source''))"
    by (rule ext) (simp add: hash_key_def)
  have row: "try_row (mem_session ?F) (\<lambda>s. s) 1 (Some 1) (?t ''abc'') (snd ?st)
             = (Inl (StorageError ''invalid input syntax for type numeric''), snd ?st)"
    by (simp add: loader_defs to_standard_format_def generate_hash_def hash_key_def
        py_get_def py_get_default_def Let_def amount_keys_def date_keys_def merchant_keys_def
        category_keys_def description_keys_def external_id_keys_def)
  have "save_to_database (mem_session ?F) (\<lambda>s. s)
          ([?t ''10'', ?t ''20''] @ ?t ''abc'' # [?t ''40'', ?t ''50''])
          1 (Some 1) \<lparr>committed = [], staged = []\<rparr>
        = commit_batch (mem_session ?F)
            (save_loop (mem_session ?F) (\<lambda>s. s) 1 (Some 1) (length [?t ''10'', ?t ''20''] + 2)
               [?t ''40'', ?t ''50'']
               ((fst ?st)\<lparr>errors := errors (fst ?st)
                   @ [''Row '' @ str_nat (length [?t ''10'', ?t ''20''] + 1) @ '': ''
                      @ exc_str (StorageError ''invalid input syntax for type numeric'')]\<rparr>,
                snd ?st))"
    by (rule save_to_database_row_error_isolated [OF _ row]) simp
  then show ?thesis
    by (simp add: loader_defs to_standard_format_def generate_hash_def hash_key_def
        py_get_def py_get_default_def Let_def amount_keys_def date_keys_def merchant_keys_def
        category_keys_def description_keys_def external_id_keys_def str_nat.simps
        digit_char_def)
qed

lemma try_row_committed:
  "committed (snd (try_row (mem_session F) R u a txn db)) = committed db"
  by (simp add: try_row_def mem_session_def mem_exists_def mem_add_def
      split: sum.splits option.splits bool.splits)

lemma save_row_committed:
  "committed (snd (save_row (mem_session F) R u a idx txn st)) = committed (snd st)"
proof -
  have "snd (save_row (mem_session F) R u a idx txn st)
        = snd (try_row (mem_session F) R u a txn (snd st))"
    by (simp add: save_row_def split: prod.splits sum.splits bool.splits)
  then show ?thesis
    by (simp add: try_row_committed)
qed

lemma save_loop_committed:
  "committed (snd (save_loop (mem_session F) R u a idx txns st)) = committed (snd st)"
  by (induction txns arbitrary: idx st) (simp_all add: save_row_committed)

lemma save_loop_rolled_back:
  "(snd (save_loop (mem_session F) R u a idx txns st))\<lparr>staged := []\<rparr>
   = \<lparr>committed = committed (snd st), staged = []\<rparr>"
  by (rule mem_db.equality) (simp_all add: save_loop_committed)

text \<open>
  C3. On the storage collaborator: when the commit after the loop raises, the staged
  insertions are rolled back and the exception is raised again, so the caller gets no
  result and the committed records are those from before the call; when the commit does
  not raise, the call returns a result, whatever happened to single records.
\<close>

theorem save_to_database_commit_failure:
  "(commit_fault F (snd (save_loop (mem_session F) R user_id acc_id 1 transactions
                      (\<lparr>saved = 0, duplicates = 0, errors = []\<rparr>, db))) = Some e \<longrightarrow>
      save_to_database (mem_session F) R transactions user_id acc_id db
        = (Inl e, \<lparr>committed = committed db, staged = []\<rparr>))
   \<and> (commit_fault F (snd (save_loop (mem_session F) R user_id acc_id 1 transactions
                      (\<lparr>saved = 0, duplicates = 0, errors = []\<rparr>, db))) = None \<longrightarrow>
      (\<exists>res db'. save_to_database (mem_session F) R transactions user_id acc_id db
                   = (Inr res, db')))"
proof -
  have s: "db_commit (mem_session F) = mem_commit F" "db_rollback (mem_session F) = mem_rollback"
    by (simp_all add: mem_session_def)
  show ?thesis
    by (simp add: save_to_database_def commit_batch_def s mem_commit_def mem_rollback_def
        save_loop_rolled_back)
qed

theorem save_to_database_commit_failure_witness:
  "save_to_database
     (mem_session \<lparr>lookup_fault = \<lambda>db h. None, stage_fault = \<lambda>db t. None,
                   commit_fault = \<lambda>db. Some (StorageError ''connection lost''),
                   sees_staged = False\<rparr>)
     (\<lambda>s. s)
     [to_standard_format (\<lambda>k. k) (\<lambda>s. s) [(PStr ''amount'', PStr ''10'')] ''csv'',
      to_standard_format (\<lambda>k. k) (\<lambda>s. s) [(PStr ''amount'', PStr ''20'')] ''csv'']
     1 None \<lparr>committed = [], staged = []\<rparr>
   = (Inl (StorageError ''connection lost''), \<lparr>committed = [], staged = []\<rparr>)
   \<and> (\<exists>res db'.
        save_to_database (mem_session (no_faults False)) (\<lambda>s. s)
          [to_standard_format (\<lambda>k. k) (\<lambda>s. s) [(PStr ''amount'', PStr ''10'')] ''csv'',
           to_standard_format (\<lambda>k. k) (\<lambda>s. s) [(PStr ''amount'', PStr ''20'')] ''csv'']
          1 None \<lparr>committed = [], staged = []\<rparr> = (Inr res, db'))"
proof -
  let ?F = "\<lparr>lookup_fault = \<lambda>db h. None, stage_fault = \<lambda>db t. None,
             commit_fault = \<lambda>db. Some (StorageError ''connection lost''),
             sees_staged = False\<rparr>"
  let ?txns = "[to_standard_format (\<lambda>k. k) (\<lambda>s. s) [(PStr ''amount'', PStr ''10'')] ''csv'',
      to_standard_format (\<lambda>k. k) (\<lambda>s. s) [(PStr ''amount'', PStr ''20'')] ''csv'']"
  have 1: "save_to_database (mem_session ?F) (\<lambda>s. s) ?txns 1 None \<lparr>committed = [], staged = []\<rparr>
           = (Inl (StorageError ''connection lost''), \<lparr>committed = [], staged = []\<rparr>)"
    using save_to_database_commit_failure
      [of ?F "\<lambda>s. s" 1 None ?txns "\<lparr>committed = [], staged = []\<rparr>"
          "StorageError ''connection lost''"]
    by simp
  have 2: "\<exists>res db'. save_to_database (mem_session (no_faults False)) (\<lambda>s. s) ?txns 1 None
              \<lparr>committed = [], staged = []\<rparr> = (Inr res, db')"
    using save_to_database_commit_failure
      [of "no_faults False" "\<lambda>s. s" 1 None ?txns "\<lparr>committed = [], staged = []\<rparr>"
          "StorageError ''connection lost''"]
    by (simp add: no_faults_def)
  from 1 2 show ?thesis
    by blast
qed

section \<open>Properties of the delimited-text reader\<close>

lemma parse_add_char_error:
  "parse_add_char r c = Inl e \<Longrightarrow> \<exists>m. e = CsvError m"
  by (cases r) (auto split: if_splits)

lemma add_then_error:
  "add_then s r c = Inl e \<Longrightarrow> \<exists>m. e = CsvError m"
  by (auto simp: add_then_def dest: parse_add_char_error split: option.splits sum.splits)

lemma start_field_error:
  "start_field r c = Inl e \<Longrightarrow> \<exists>m. e = CsvError m"
  by (auto simp: start_field_def dest: add_then_error split: if_splits)

lemma parse_process_char_error:
  "parse_process_char r c = Inl e \<Longrightarrow> \<exists>m. e = CsvError m"
  by (cases "state_of r")
    (auto dest: add_then_error start_field_error split: if_splits)

lemma process_line_error:
  "process_line r l = Inl e \<Longrightarrow> \<exists>m. e = CsvError m"
proof (induction l arbitrary: r)
  case Nil
  then show ?case
    by (simp del: parse_process_char.simps add: parse_process_char_error)
next
  case (Cons c cs)
  show ?case
  proof (cases "parse_process_char r (Some c)")
    case (Inl e')
    with Cons.prems have "parse_process_char r (Some c) = Inl e"
      by (simp del: parse_process_char.simps)
    then show ?thesis
      by (rule parse_process_char_error)
  next
    case (Inr r')
    with Cons.prems have "process_line r' cs = Inl e"
      by (simp del: parse_process_char.simps)
    then show ?thesis
      by (rule Cons.IH)
  qed
qed

lemma reader_records_error:
  "reader_records r ls = Inl e \<Longrightarrow> \<exists>m. e = CsvError m"
proof (induction ls arbitrary: r)
  case Nil
  then show ?case
    by (simp split: if_splits)
next
  case (Cons l ls)
  show ?case
  proof (cases "process_line r l")
    case (Inl e')
    with Cons.prems have "process_line r l = Inl e"
      by simp
    then show ?thesis
      by (rule process_line_error)
  next
    case (Inr r')
    show ?thesis
    proof (cases "state_of r' = START_RECORD")
      case True
      with Inr Cons.prems have "reader_records new_reader ls = Inl e"
        by (simp split: sum.splits)
      then show ?thesis
        by (rule Cons.IH)
    next
      case False
      with Inr Cons.prems have "reader_records r' ls = Inl e"
        by simp
      then show ?thesis
        by (rule Cons.IH)
    qed
  qed
qed

lemma csv_rows_error:
  "csv_rows t = Inl e \<Longrightarrow> \<exists>m. e = CsvError m"
  by (auto simp: csv_rows_def dest: reader_records_error split: sum.splits)

lemmas reader_defs =
  csv_rows_def new_reader_def start_field_def is_newline_def end_state_def add_then_def
  cont_byte_def dict_reader_def dict_row_def

lemmas decode_defs =
  decode_utf8_def decode_cp1251_def cp1251_char_def cp1251_high_def utf8_encode_def
  char_of_def bit_Suc_0_iff cont_byte_def

text \<open>
  C8, as the claim states it, fails in its last part: a byte sequence that is not UTF-8
  and is valid in windows-1251 is decoded, but its parsing can still fail. The three
  bytes \<^verbatim>\<open>E0 0D 62\<close> decode to a Cyrillic letter, a carriage return and \<^verbatim>\<open>b\<close>; a
  carriage return inside a line is an error of the table parser.
\<close>

theorem read_csv_file_fallback_parse_error:
  "decode_utf8 [CHR 0xE0, CHR 0x0D, CHR ''b''] = None
   \<and> decode_cp1251 [CHR 0xE0, CHR 0x0D, CHR ''b'']
       = Inr [CHR 0xD0, CHR 0xB0, CHR 0x0D, CHR ''b'']
   \<and> read_csv_file [CHR 0xE0, CHR 0x0D, CHR ''b'']
       = Inl (CsvError (''new-line character seen in unquoted field - ''
                        @ ''do you need to open the file with newline=''
                        @ [CHR 0x27, CHR 0x27] @ ''?''))"
proof -
  have 1: "decode_utf8 [CHR 0xE0, CHR 0x0D, CHR ''b''] = None"
    by (simp add: decode_defs)
  have 2: "decode_cp1251 [CHR 0xE0, CHR 0x0D, CHR ''b'']
       = Inr [CHR 0xD0, CHR 0xB0, CHR 0x0D, CHR ''b'']"
    by (simp add: decode_defs)
  have 3: "csv_rows [CHR 0xD0, CHR 0xB0, CHR 0x0D, CHR ''b'']
       = Inl (CsvError (''new-line character seen in unquoted field - ''
                        @ ''do you need to open the file with newline=''
                        @ [CHR 0x27, CHR 0x27] @ ''?''))"
    by (simp add: reader_defs)
  show ?thesis
    by (simp only: 1 2 3 read_csv_file_def option.case sum.case simp_thms)
qed

text \<open>
  C8, amended. \<^verbatim>\<open>read_csv_file\<close> decodes its input as UTF-8 and, if and only if that
  fails, as windows-1251. It fails with a decode error only when both decodings fail,
  and then with the error of the fallback. A byte sequence that is not UTF-8 and is
  valid in windows-1251 is decoded with the fallback, and the outcome of
  \<^verbatim>\<open>read_csv_file\<close> is the outcome of the table parser on the decoded text.
\<close>

theorem read_csv_file_decoding:
  "(decode_utf8 b = Some t \<longrightarrow> read_csv_file b = csv_rows t)
   \<and> (decode_utf8 b = None \<and> decode_cp1251 b = Inr t \<longrightarrow> read_csv_file b = csv_rows t)
   \<and> (decode_utf8 b = None \<and> decode_cp1251 b = Inl e \<longrightarrow> read_csv_file b = Inl e)
   \<and> (read_csv_file b = Inl (UnicodeDecodeError m) \<longrightarrow>
        decode_utf8 b = None \<and> decode_cp1251 b = Inl (UnicodeDecodeError m))"
proof -
  have only: "decode_utf8 b = None \<and> decode_cp1251 b = Inl (UnicodeDecodeError m)"
    if r: "read_csv_file b = Inl (UnicodeDecodeError m)"
  proof (cases "decode_utf8 b")
    case (Some t')
    with r have "csv_rows t' = Inl (UnicodeDecodeError m)"
      by (simp add: read_csv_file_def)
    then show ?thesis
      by (auto dest: csv_rows_error)
  next
    case None
    show ?thesis
    proof (cases "decode_cp1251 b")
      case (Inl e')
      with None r show ?thesis
        by (simp add: read_csv_file_def)
    next
      case (Inr t')
      with None r have "csv_rows t' = Inl (UnicodeDecodeError m)"
        by (simp add: read_csv_file_def)
      then show ?thesis
        by (auto dest: csv_rows_error)
    qed
  qed
  show ?thesis
    using only by (simp add: read_csv_file_def)
qed

theorem read_csv_file_decoding_witness:
  "read_csv_file (''a,b'' @ [CHR 0x0A] @ ''1,2'' @ [CHR 0x0A])
     = csv_rows (''a,b'' @ [CHR 0x0A] @ ''1,2'' @ [CHR 0x0A])
   \<and> read_csv_file [CHR 0xC4, CHR 0xE0, CHR 0xF2, CHR 0xE0, CHR '','', CHR ''x'', CHR 0x0A,
                     CHR ''1'', CHR '','', CHR ''2'', CHR 0x0A]
     = Inr [[(PStr (date_keys ! 4), PStr ''1''), (PStr ''x'', PStr ''2'')]]
   \<and> read_csv_file [CHR ''a'', CHR 0x98]
     = Inl (UnicodeDecodeError
              (sq ''charmap'' @ '' codec can'' @ [CHR 0x27]
               @ ''t decode byte 0x98 in position 1: character maps to <undefined>''))
   \<and> decode_utf8 [CHR ''a'', CHR 0x98] = None"
proof -
  let ?u = "''a,b'' @ [CHR 0x0A] @ ''1,2'' @ [CHR 0x0A]"
  let ?c = "[CHR 0xC4, CHR 0xE0, CHR 0xF2, CHR 0xE0, CHR '','', CHR ''x'', CHR 0x0A,
             CHR ''1'', CHR '','', CHR ''2'', CHR 0x0A]"
  let ?t = "date_keys ! 4 @ '',x'' @ [CHR 0x0A] @ ''1,2'' @ [CHR 0x0A]"
  let ?bad = "[CHR ''a'', CHR 0x98]"
  let ?e = "UnicodeDecodeError
              (sq ''charmap'' @ '' codec can'' @ [CHR 0x27]
               @ ''t decode byte 0x98 in position 1: character maps to <undefined>'')"
  have u: "decode_utf8 ?u = Some ?u"
    by (simp add: decode_defs)
  have c: "decode_utf8 ?c = None \<and> decode_cp1251 ?c = Inr ?t"
    by (simp add: decode_defs date_keys_def)
  have rows: "csv_rows ?t = Inr [[(PStr (date_keys ! 4), PStr ''1''), (PStr ''x'', PStr ''2'')]]"
    by (simp add: reader_defs date_keys_def)
  have bad: "decode_utf8 ?bad = None \<and> decode_cp1251 ?bad = Inl ?e"
    by (simp add: decode_defs str_nat.simps digit_char_def sq_def)
  have 1: "read_csv_file ?u = csv_rows ?u"
    using read_csv_file_decoding [of ?u ?u] u by blast
  have 2: "read_csv_file ?c = csv_rows ?t"
    using read_csv_file_decoding [of ?c ?t] c by blast
  have 3: "read_csv_file ?bad = Inl ?e"
    using read_csv_file_decoding [of ?bad _ ?e] bad by blast
  have 4: "decode_utf8 ?bad = None"
    using read_csv_file_decoding [of ?bad _ _ "sq ''charmap'' @ '' codec can'' @ [CHR 0x27]
               @ ''t decode byte 0x98 in position 1: character maps to <undefined>''"] 3
    by blast
  from 1 2 3 4 rows show ?thesis
    by (simp only: simp_thms)
qed

section \<open>Re-ingestion\<close>











end
